theory Spec2Isabelle
  imports Complex_Main "HOL-Library.Word"
begin

section \<open>JavaScript values used by the crash game\<close>

text \<open>
  A JavaScript number is modelled as either \<open>NaN\<close> or an exact rational. The rounding
  of IEEE doubles is not modelled: every value the fairness generator computes is an
  integer below \<open>2 ^ 53\<close> and therefore exact, and the multiplier clock is read as the
  exact value of its formula.
\<close>

datatype jsnum = NaN | Num rat

text \<open>The strict comparison \<^verbatim>\<open>a === b\<close> on numbers: \<open>NaN\<close> equals nothing.\<close>

fun js_eq :: "jsnum \<Rightarrow> jsnum \<Rightarrow> bool" where
  "js_eq (Num a) (Num b) = (a = b)"
| "js_eq _ _ = False"

text \<open>\<^verbatim>\<open>a >= b\<close> on numbers: false as soon as one side is \<open>NaN\<close>.\<close>

fun js_ge :: "jsnum \<Rightarrow> jsnum \<Rightarrow> bool" where
  "js_ge (Num a) (Num b) = (b \<le> a)"
| "js_ge _ _ = False"

text \<open>Truthiness of a number, as in \<^verbatim>\<open>x && ...\<close>: \<open>NaN\<close> and \<open>0\<close> are falsy.\<close>

fun js_truthy :: "jsnum \<Rightarrow> bool" where
  "js_truthy NaN = False"
| "js_truthy (Num a) = (a \<noteq> 0)"

text \<open>
  \<^verbatim>\<open>a % b\<close> for an integer dividend (\<open>None\<close> is \<open>NaN\<close>) and an integer divisor: the
  result takes the sign of the dividend, and a zero divisor gives \<open>NaN\<close>.
\<close>

definition js_rem :: "int option \<Rightarrow> int \<Rightarrow> int option" where
  "js_rem a b =
     (case a of
        None \<Rightarrow> None
      | Some x \<Rightarrow> if b = 0 then None else Some (sgn x * (\<bar>x\<bar> mod \<bar>b\<bar>)))"

text \<open>
  \<^verbatim>\<open>parseFloat(x.toFixed(2))\<close>: \<open>toFixed\<close> picks the nearest multiple of \<open>1/100\<close>, the
  larger magnitude on a tie, and prints numbers of magnitude \<open>10 ^ 21\<close> and above
  unrounded.
\<close>

definition round2 :: "rat \<Rightarrow> rat" where
  "round2 x =
     (if 10 ^ 21 \<le> \<bar>x\<bar> then x
      else sgn x * (of_int \<lfloor>\<bar>x\<bar> * 100 + 1 / 2\<rfloor> / 100))"

fun toFixed2 :: "jsnum \<Rightarrow> jsnum" where
  "toFixed2 NaN = NaN"
| "toFixed2 (Num x) = Num (round2 x)"

subsection \<open>Hex strings\<close>

text \<open>The value of a character as a radix-16 digit, in either case.\<close>

definition digitVal :: "char \<Rightarrow> nat option" where
  "digitVal c =
     (let n = (of_char c :: nat) in
      if 48 \<le> n \<and> n \<le> 57 then Some (n - 48)
      else if 97 \<le> n \<and> n \<le> 102 then Some (n - 87)
      else if 65 \<le> n \<and> n \<le> 70 then Some (n - 55)
      else None)"

text \<open>The digit values of the longest prefix of radix-16 digits.\<close>

fun hexPrefix :: "string \<Rightarrow> nat list" where
  "hexPrefix [] = []"
| "hexPrefix (c # cs) = (case digitVal c of None \<Rightarrow> [] | Some d \<Rightarrow> d # hexPrefix cs)"

definition radix16 :: "nat list \<Rightarrow> nat" where
  "radix16 ds = foldl (\<lambda>a d. 16 * a + d) 0 ds"

definition isWhite :: "char \<Rightarrow> bool" where
  "isWhite c = ((of_char c :: nat) \<in> {9, 10, 11, 12, 13, 32})"

text \<open>
  \<^verbatim>\<open>parseInt(s, 16)\<close>: leading white space is skipped, then an optional sign, then an
  optional \<^verbatim>\<open>0x\<close> prefix; the longest run of hex digits that follows is the value, and
  an empty run gives \<open>NaN\<close> (here \<open>None\<close>). Only the ASCII white space is modelled.
\<close>

definition parseInt16 :: "string \<Rightarrow> int option" where
  "parseInt16 s =
     (let S = dropWhile isWhite s;
          neg = (take 1 S = ''-'');
          S1 = (if take 1 S = ''+'' \<or> take 1 S = ''-'' then drop 1 S else S);
          S2 = (if take 2 S1 = ''0x'' \<or> take 2 S1 = ''0X'' then drop 2 S1 else S1);
          Z = hexPrefix S2
      in if Z = [] then None
         else Some ((if neg then - 1 else 1) * int (radix16 Z)))"

text \<open>Lower-case hex encoding of a number on a fixed number of digits, as \<^verbatim>\<open>digest('hex')\<close> prints bytes.\<close>

definition hexChar :: "nat \<Rightarrow> char" where
  "hexChar d = char_of (if d < 10 then 48 + d else 87 + d)"

fun toHex :: "nat \<Rightarrow> nat \<Rightarrow> string" where
  "toHex 0 n = []"
| "toHex (Suc k) n = toHex k (n div 16) @ [hexChar (n mod 16)]"

text \<open>The decimal rendering of an integer, as a template literal prints a round number.\<close>

fun decimalDigits :: "nat \<Rightarrow> nat \<Rightarrow> string" where
  "decimalDigits 0 n = []"
| "decimalDigits (Suc fuel) n =
     (if n < 10 then [char_of (48 + n)]
      else decimalDigits fuel (n div 10) @ [char_of (48 + n mod 10)])"

definition numberToString :: "int \<Rightarrow> string" where
  "numberToString i =
     (if i < 0 then CHR ''-'' # decimalDigits (Suc (nat (- i))) (nat (- i))
      else decimalDigits (Suc (nat i)) (nat i))"

section \<open>The fairness generator (provablyFair.js and GameService.generateCrashPoint)\<close>

text \<open>
  SHA-256 belongs to the platform's crypto library. It is a parameter \<open>sha\<close> of the
  model, from the hashed text to the 256-bit digest; \<open>digestHex\<close> is the 64-character
  hex string that \<^verbatim>\<open>digest('hex')\<close> returns for it.
\<close>

type_synonym sha256 = "string \<Rightarrow> 256 word"

definition digestHex :: "256 word \<Rightarrow> string" where
  "digestHex w = toHex 64 (unat w)"

definition generateHash :: "sha256 \<Rightarrow> string \<Rightarrow> int \<Rightarrow> string" where
  "generateHash sha seed roundNumber =
     digestHex (sha (seed @ '':'' @ numberToString roundNumber))"

definition calculateCrashPoint :: "string \<Rightarrow> int \<Rightarrow> jsnum" where
  "calculateCrashPoint hash maxCrashValue =
     (let hashFragment = take 8 hash;
          decimal = parseInt16 hashFragment;
          crashPoint = (case js_rem decimal maxCrashValue of
                          None \<Rightarrow> NaN
                        | Some r \<Rightarrow> Num (1 + of_int r))
      in toFixed2 crashPoint)"

definition verifyCrashPoint :: "sha256 \<Rightarrow> string \<Rightarrow> int \<Rightarrow> string \<Rightarrow> jsnum \<Rightarrow> int \<Rightarrow> bool" where
  "verifyCrashPoint sha seed roundNumber hash crashPoint maxCrashValue =
     (let calculatedHash = generateHash sha seed roundNumber in
      if calculatedHash \<noteq> hash then False
      else js_eq (calculateCrashPoint hash maxCrashValue) crashPoint)"

text \<open>
  \<^verbatim>\<open>config.game.maxCrashValue = parseInt(process.env.MAX_CRASH_VALUE) || 100\<close>: the
  argument is what \<open>parseInt\<close> made of the environment variable (\<open>None\<close> when it is
  unset or not a number); \<open>NaN\<close> and \<open>0\<close> are falsy and give the default.
\<close>

definition configMaxCrashValue :: "int option \<Rightarrow> int" where
  "configMaxCrashValue env = (case env of None \<Rightarrow> 100 | Some n \<Rightarrow> if n = 0 then 100 else n)"

record proof_materials =
  pm_crashPoint :: jsnum
  pm_seed :: string
  pm_hash :: string

text \<open>
  \<open>GameService.generateCrashPoint\<close>, with the seed it draws from
  \<^verbatim>\<open>crypto.randomBytes(32)\<close> as an argument.
\<close>

definition generateCrashPoint :: "sha256 \<Rightarrow> int \<Rightarrow> string \<Rightarrow> int \<Rightarrow> proof_materials" where
  "generateCrashPoint sha maxCrashValue seed roundNumber =
     (let hash = digestHex (sha (seed @ '':'' @ numberToString roundNumber));
          hashFragment = take 8 hash;
          decimal = parseInt16 hashFragment;
          crashPoint = (case js_rem decimal maxCrashValue of
                          None \<Rightarrow> NaN
                        | Some r \<Rightarrow> Num (1 + of_int r))
      in \<lparr>pm_crashPoint = toFixed2 crashPoint, pm_seed = seed, pm_hash = hash\<rparr>)"

text \<open>The digits of a number on a fixed width, most significant first.\<close>

fun hexDigitsOf :: "nat \<Rightarrow> nat \<Rightarrow> nat list" where
  "hexDigitsOf 0 n = []"
| "hexDigitsOf (Suc k) n = hexDigitsOf k (n div 16) @ [n mod 16]"

text \<open>The number spelled by the first 8 hex characters of a digest: its top 32 bits.\<close>

definition hashDecimal :: "256 word \<Rightarrow> nat" where
  "hashDecimal w = unat w div 16 ^ 56"

section \<open>The round engine (GameService)\<close>

text \<open>
  The service object, the wallet collection and the transaction collection form one
  state record; every method takes the state and returns the new one. What a method
  reads from its environment is an argument: the clock (\<^verbatim>\<open>Date.now()\<close>, in
  milliseconds), the fresh seed, whether the database is connected
  (\<^verbatim>\<open>mongoose.connection.readyState === 1\<close>), and the price oracle's reply to
  \<open>usdToCrypto\<close>. A method runs to completion before the next one starts. Reads and
  writes of a connected store succeed, with two exceptions: the save of a new round,
  whose outcome is an argument of \<open>startRound\<close>, and the save of a transaction, which
  the schema refuses when the transaction has no valid \<open>gameRoundId\<close>. The
  round-history store and the events sent to the clients are not part of the state.
  A thrown \<open>Error\<close> is a value of type \<open>error\<close>, one constructor per message.
\<close>

datatype phase = Waiting | Betting | Running | Ended | Paused | Stopped

datatype error =
    InvalidBetParameters          \<comment> \<open>\<^verbatim>\<open>Invalid bet parameters\<close>\<close>
  | UnsupportedCurrency string    \<comment> \<open>\<^verbatim>\<open>Unsupported currency: ...\<close>\<close>
  | BettingClosed                 \<comment> \<open>\<^verbatim>\<open>Betting is closed for this round\<close>\<close>
  | ActiveBetExists               \<comment> \<open>\<^verbatim>\<open>User already has an active bet for this round\<close>\<close>
  | WalletNotFound                \<comment> \<open>\<^verbatim>\<open>Wallet not found\<close>\<close>
  | InsufficientBalance string    \<comment> \<open>\<^verbatim>\<open>Insufficient ... balance\<close>\<close>
  | InvalidUserId                 \<comment> \<open>\<^verbatim>\<open>Invalid user ID\<close>\<close>
  | NoActiveRound                 \<comment> \<open>\<^verbatim>\<open>No active round to cash out from\<close>\<close>
  | CashoutNotRunning             \<comment> \<open>\<^verbatim>\<open>Cashout is only allowed while the game is running\<close>\<close>
  | NoActiveBet                   \<comment> \<open>\<^verbatim>\<open>No active bet found for this user\<close>\<close>
  | AlreadyCashedOut              \<comment> \<open>\<^verbatim>\<open>User has already cashed out\<close>\<close>
  | TransactionValidation         \<comment> \<open>the \<open>ValidationError\<close> of \<^verbatim>\<open>transaction.save()\<close>\<close>

datatype tx_id =
    DemoTx int        \<comment> \<open>\<^verbatim>\<open>demo-tx-${Date.now()}\<close>\<close>
  | DemoCashout int   \<comment> \<open>\<^verbatim>\<open>demo-cashout-${Date.now()}\<close>\<close>
  | StoredTx nat      \<comment> \<open>the id of a saved transaction: its position in the collection\<close>

datatype tx_type = BetTx | CashoutTx

record bet =
  bet_userId :: string
  bet_usdAmount :: rat
  bet_cryptoAmount :: rat
  bet_currency :: string
  bet_transactionId :: tx_id

record cashout =
  co_userId :: string
  co_usdAmount :: rat
  co_cryptoAmount :: rat
  co_currency :: string
  co_multiplier :: rat
  co_timestamp :: int
  co_transactionId :: tx_id

record transaction =
  tx_userId :: string
  tx_usdAmount :: rat
  tx_cryptoAmount :: rat
  tx_currency :: string
  tx_transactionType :: tx_type
  tx_priceAtTime :: rat
  tx_multiplier :: "rat option"

datatype round_status = Active | Completed

text \<open>
  The round object: \<open>r_persisted\<close> tells the \<open>GameRound\<close> document from the plain
  object of the demo mode.
\<close>

record round =
  r_persisted :: bool
  r_roundNumber :: int
  r_startTime :: int
  r_endTime :: "int option"
  r_crashPoint :: jsnum
  r_seed :: string
  r_hash :: string
  r_status :: round_status
  r_bets :: "bet list"
  r_cashouts :: "cashout list"

text \<open>
  A wallet's balances by currency. Only \<^verbatim>\<open>BTC\<close> and \<^verbatim>\<open>ETH\<close> are ever looked up,
  and the schema gives both a default, so a balance is always a number.
\<close>

type_synonym wallet = "string \<Rightarrow> rat"

text \<open>
  \<open>multiplierUpdateTimer\<close> holds what the running interval callback has captured, the
  start instant and the crash point, and is \<open>None\<close> once the interval is cleared. The
  timers behind the phase changes are not state: their callbacks are events that may
  occur at any time, which covers every schedule the timers allow.
\<close>

record game =
  currentRound :: "round option"
  currentMultiplier :: rat
  isGameRunning :: bool
  maxCrashValue :: int
  roundNumber :: int
  multiplierUpdateTimer :: "(int \<times> jsnum) option"
  activeBets :: "string \<rightharpoonup> bet"
  cashedOut :: "string set"
  roundPhase :: phase
  wallets :: "string \<rightharpoonup> wallet"
  transactions :: "transaction list"

text \<open>The constants of \<^verbatim>\<open>config.js\<close>.\<close>

definition growthFactor :: rat where
  "growthFactor = 5 / 100000"

definition initialMultiplier :: rat where
  "initialMultiplier = 1"

definition supportedCurrencies :: "string list" where
  "supportedCurrencies = [''BTC'', ''ETH'']"

text \<open>
  The constructor, over a given wallet collection, and \<open>startGameLoop\<close>, whose argument
  is the round number it reads from the round-history store (0 when there is none or
  the store cannot be read).
\<close>

definition newGameService :: "int \<Rightarrow> (string \<rightharpoonup> wallet) \<Rightarrow> game" where
  "newGameService maxCrash ws =
     \<lparr>currentRound = None, currentMultiplier = initialMultiplier, isGameRunning = False,
      maxCrashValue = maxCrash, roundNumber = 0, multiplierUpdateTimer = None,
      activeBets = Map.empty, cashedOut = {}, roundPhase = Waiting,
      wallets = ws, transactions = []\<rparr>"

definition scheduleNextRound :: "game \<Rightarrow> game" where
  "scheduleNextRound s = s\<lparr>roundPhase := Waiting\<rparr>"

definition startGameLoop :: "int \<Rightarrow> game \<Rightarrow> game" where
  "startGameLoop latestRoundNumber s = scheduleNextRound (s\<lparr>roundNumber := latestRoundNumber\<rparr>)"

definition startBettingPhase :: "game \<Rightarrow> game" where
  "startBettingPhase s = s\<lparr>roundPhase := Betting, activeBets := Map.empty, cashedOut := {}\<rparr>"

definition startMultiplierUpdates :: "int \<Rightarrow> jsnum \<Rightarrow> game \<Rightarrow> game" where
  "startMultiplierUpdates now crashPoint s =
     s\<lparr>multiplierUpdateTimer := Some (now, crashPoint)\<rparr>"

text \<open>
  \<open>startRound\<close>: \<open>saveOk\<close> is the outcome of saving the new document; a failed save is
  caught and the next round is scheduled.
\<close>

definition startRound :: "sha256 \<Rightarrow> string \<Rightarrow> bool \<Rightarrow> bool \<Rightarrow> int \<Rightarrow> game \<Rightarrow> game" where
  "startRound sha seed isMongoConnected saveOk now s =
     (let s1 = s\<lparr>roundNumber := roundNumber s + 1, isGameRunning := True,
                 currentMultiplier := initialMultiplier, roundPhase := Running\<rparr>;
          pm = generateCrashPoint sha (maxCrashValue s1) seed (roundNumber s1);
          r = \<lparr>r_persisted = isMongoConnected, r_roundNumber = roundNumber s1,
               r_startTime = now, r_endTime = None, r_crashPoint = pm_crashPoint pm,
               r_seed = pm_seed pm, r_hash = pm_hash pm, r_status = Active,
               r_bets = [], r_cashouts = []\<rparr>;
          s2 = s1\<lparr>currentRound := Some r\<rparr>
      in if isMongoConnected \<and> \<not> saveOk then scheduleNextRound s2
         else startMultiplierUpdates now (pm_crashPoint pm) s2)"

definition crashGame :: "int \<Rightarrow> game \<Rightarrow> game" where
  "crashGame now s =
     (let s1 = s\<lparr>multiplierUpdateTimer := None, isGameRunning := False, roundPhase := Ended\<rparr>
      in case currentRound s1 of
           None \<Rightarrow> s1
         | Some r \<Rightarrow> s1\<lparr>currentRound := Some (r\<lparr>r_endTime := Some now, r_status := Completed\<rparr>)\<rparr>)"

text \<open>The interval callback installed by \<open>startMultiplierUpdates\<close>, fired at time \<open>now\<close>.\<close>

definition tick :: "int \<Rightarrow> game \<Rightarrow> game" where
  "tick now s =
     (case multiplierUpdateTimer s of
        None \<Rightarrow> s
      | Some (startTime, crashPoint) \<Rightarrow>
          let timeElapsed = now - startTime;
              s1 = s\<lparr>currentMultiplier := initialMultiplier + of_int timeElapsed * growthFactor\<rparr>
          in if js_ge (Num (currentMultiplier s1)) crashPoint then crashGame now s1 else s1)"

definition pauseGame :: "game \<Rightarrow> game" where
  "pauseGame s =
     (if roundPhase s = Running \<and> isGameRunning s
      then s\<lparr>isGameRunning := False, roundPhase := Paused, multiplierUpdateTimer := None\<rparr>
      else s)"

definition resumeGame :: "int \<Rightarrow> game \<Rightarrow> game" where
  "resumeGame now s =
     (if roundPhase s = Paused \<and> \<not> isGameRunning s
      then let s1 = s\<lparr>isGameRunning := True, roundPhase := Running\<rparr>
           in case currentRound s1 of
                None \<Rightarrow> s1
              | Some r \<Rightarrow> if js_truthy (r_crashPoint r)
                          then startMultiplierUpdates now (r_crashPoint r) s1 else s1
      else s)"

definition stopGame :: "game \<Rightarrow> game" where
  "stopGame s = s\<lparr>isGameRunning := False, roundPhase := Stopped, multiplierUpdateTimer := None\<rparr>"

definition startNewGame :: "game \<Rightarrow> game" where
  "startNewGame s = (if roundPhase s = Stopped then scheduleNextRound s else s)"

text \<open>\<open>walletSchema.methods.updateBalance\<close>.\<close>

definition updateBalance :: "wallet \<Rightarrow> string \<Rightarrow> rat \<Rightarrow> error + wallet" where
  "updateBalance w currency amount =
     (if w currency = 0 \<and> amount < 0 then Inl (InsufficientBalance currency)
      else if w currency + amount < 0 then Inl (InsufficientBalance currency)
      else Inr (w(currency := w currency + amount)))"

text \<open>
  The transaction schema requires \<open>gameRoundId\<close>, an \<open>ObjectId\<close>. Both requests pass
  \<^verbatim>\<open>this.currentRound && this.currentRound._id ? this.currentRound._id : undefined\<close>:
  that is a document id only when the current round is a \<open>GameRound\<close> document. With no
  current round the field is missing, and the id \<^verbatim>\<open>demo-round-N\<close> of a demo round is
  taken not to cast to an \<open>ObjectId\<close>; in both cases \<^verbatim>\<open>transaction.save()\<close> throws.
\<close>

definition gameRoundIdValid :: "game \<Rightarrow> bool" where
  "gameRoundIdValid s = (case currentRound s of None \<Rightarrow> False | Some r \<Rightarrow> r_persisted r)"

text \<open>
  \<open>placeBet\<close>: \<open>cryptoAmount\<close> and \<open>price\<close> are the reply of the price oracle to
  \<open>usdToCrypto(usdAmount, currency)\<close>. With the database connected the wallet is
  debited and saved before the transaction is saved; when that save throws, the
  request fails with the debit in place and no bet recorded.
\<close>

definition placeBet ::
  "string \<Rightarrow> rat \<Rightarrow> string \<Rightarrow> rat \<Rightarrow> rat \<Rightarrow> bool \<Rightarrow> int \<Rightarrow> game \<Rightarrow> (error + bet) \<times> game" where
  "placeBet userId usdAmount currency cryptoAmount price isMongoConnected now s =
     (if userId = [] \<or> usdAmount \<le> 0 \<or> currency = [] then (Inl InvalidBetParameters, s)
      else if currency \<notin> set supportedCurrencies then (Inl (UnsupportedCurrency currency), s)
      else if roundPhase s \<noteq> Betting then (Inl BettingClosed, s)
      else if activeBets s userId \<noteq> None then (Inl ActiveBetExists, s)
      else
        (case (if isMongoConnected then
                 (case wallets s userId of
                    None \<Rightarrow> (Inl WalletNotFound, s)
                  | Some wallet \<Rightarrow>
                      if wallet currency < cryptoAmount then (Inl (InsufficientBalance currency), s)
                      else (case updateBalance wallet currency (- cryptoAmount) of
                              Inl e \<Rightarrow> (Inl e, s)
                            | Inr wallet' \<Rightarrow>
                                let debited = s\<lparr>wallets := (wallets s)(userId \<mapsto> wallet')\<rparr>
                                in if gameRoundIdValid debited
                                   then (Inr (StoredTx (length (transactions debited))),
                                         debited\<lparr>transactions := transactions debited @
                                           [\<lparr>tx_userId = userId, tx_usdAmount = usdAmount,
                                             tx_cryptoAmount = cryptoAmount, tx_currency = currency,
                                             tx_transactionType = BetTx, tx_priceAtTime = price,
                                             tx_multiplier = None\<rparr>]\<rparr>)
                                   else (Inl TransactionValidation, debited)))
               else (Inr (DemoTx now), s)) of
           (Inl e, s1) \<Rightarrow> (Inl e, s1)
         | (Inr transactionId, s1) \<Rightarrow>
             let betDetails = \<lparr>bet_userId = userId, bet_usdAmount = usdAmount,
                               bet_cryptoAmount = cryptoAmount, bet_currency = currency,
                               bet_transactionId = transactionId\<rparr>;
                 s2 = s1\<lparr>activeBets := (activeBets s1)(userId \<mapsto> betDetails)\<rparr>;
                 s3 = (case currentRound s2 of
                         None \<Rightarrow> s2
                       | Some r \<Rightarrow> s2\<lparr>currentRound := Some (r\<lparr>r_bets := r_bets r @ [betDetails]\<rparr>)\<rparr>)
             in (Inr betDetails, s3)))"

text \<open>
  \<open>cashOut\<close>. The price stored with the credit is \<^verbatim>\<open>bet.usdAmount / bet.cryptoAmount\<close>;
  it plays no part below. As in \<open>placeBet\<close>, the wallet is credited and saved before
  the transaction is saved; when that save throws, the request fails with the credit
  in place and the user not marked as cashed out.
\<close>

definition cashOut :: "string \<Rightarrow> bool \<Rightarrow> int \<Rightarrow> game \<Rightarrow> (error + cashout) \<times> game" where
  "cashOut userId isMongoConnected now s =
     (if userId = [] then (Inl InvalidUserId, s)
      else if \<not> isGameRunning s then (Inl NoActiveRound, s)
      else if roundPhase s \<noteq> Running then (Inl CashoutNotRunning, s)
      else case activeBets s userId of
             None \<Rightarrow> (Inl NoActiveBet, s)
           | Some bet \<Rightarrow>
               if userId \<in> cashedOut s then (Inl AlreadyCashedOut, s)
               else
                 (let multiplier = currentMultiplier s;
                     cryptoPayout = bet_cryptoAmount bet * multiplier;
                     usdPayout = bet_usdAmount bet * multiplier
                  in case (if isMongoConnected then
                            (case wallets s userId of
                               None \<Rightarrow> (Inl WalletNotFound, s)
                             | Some wallet \<Rightarrow>
                                 (case updateBalance wallet (bet_currency bet) cryptoPayout of
                                    Inl e \<Rightarrow> (Inl e, s)
                                  | Inr wallet' \<Rightarrow>
                                      let credited = s\<lparr>wallets := (wallets s)(userId \<mapsto> wallet')\<rparr>
                                      in if gameRoundIdValid credited
                                         then (Inr (StoredTx (length (transactions credited))),
                                               credited\<lparr>transactions := transactions credited @
                                                 [\<lparr>tx_userId = userId, tx_usdAmount = usdPayout,
                                                   tx_cryptoAmount = cryptoPayout,
                                                   tx_currency = bet_currency bet,
                                                   tx_transactionType = CashoutTx,
                                                   tx_priceAtTime = bet_usdAmount bet / bet_cryptoAmount bet,
                                                   tx_multiplier = Some multiplier\<rparr>]\<rparr>)
                                         else (Inl TransactionValidation, credited)))
                          else (Inr (DemoCashout now), s)) of
                      (Inl e, s1) \<Rightarrow> (Inl e, s1)
                    | (Inr transactionId, s1) \<Rightarrow>
                        let s2 = s1\<lparr>cashedOut := insert userId (cashedOut s1)\<rparr>;
                            cashoutDetails = \<lparr>co_userId = userId, co_usdAmount = usdPayout,
                                               co_cryptoAmount = cryptoPayout,
                                               co_currency = bet_currency bet,
                                               co_multiplier = multiplier, co_timestamp = now,
                                               co_transactionId = transactionId\<rparr>;
                            s3 = (case currentRound s2 of
                                    None \<Rightarrow> s2
                                  | Some r \<Rightarrow> s2\<lparr>currentRound :=
                                                Some (r\<lparr>r_cashouts := r_cashouts r @ [cashoutDetails]\<rparr>)\<rparr>)
                        in (Inr cashoutDetails, s3)))"

subsection \<open>Events\<close>

text \<open>
  Everything that can happen to the service: the server calls \<open>startGameLoop\<close> (after
  every attempt to connect to the database, whether it succeeded or not), a timer
  callback fires, a client request arrives, the operator sends a command. \<open>run\<close>
  processes a list of events in order.
\<close>

datatype event =
    StartGameLoop int
  | ScheduleNextRound
  | StartBettingPhase
  | StartRound string bool bool int
  | Tick int
  | PlaceBet string rat string rat rat bool int
  | CashOut string bool int
  | PauseGame
  | ResumeGame int
  | StopGame
  | StartNewGame

fun step :: "sha256 \<Rightarrow> game \<Rightarrow> event \<Rightarrow> game" where
  "step sha s (StartGameLoop latestRoundNumber) = startGameLoop latestRoundNumber s"
| "step sha s ScheduleNextRound = scheduleNextRound s"
| "step sha s StartBettingPhase = startBettingPhase s"
| "step sha s (StartRound seed isMongoConnected saveOk now) =
     startRound sha seed isMongoConnected saveOk now s"
| "step sha s (Tick now) = tick now s"
| "step sha s (PlaceBet userId usdAmount currency cryptoAmount price isMongoConnected now) =
     snd (placeBet userId usdAmount currency cryptoAmount price isMongoConnected now s)"
| "step sha s (CashOut userId isMongoConnected now) = snd (cashOut userId isMongoConnected now s)"
| "step sha s PauseGame = pauseGame s"
| "step sha s (ResumeGame now) = resumeGame now s"
| "step sha s StopGame = stopGame s"
| "step sha s StartNewGame = startNewGame s"

definition run :: "sha256 \<Rightarrow> event list \<Rightarrow> game \<Rightarrow> game" where
  "run sha evs s = foldl (step sha) s evs"


subsection \<open>Predicates used in the statements\<close>



fun isStartRound :: "event \<Rightarrow> bool" where
  "isStartRound (StartRound seed isMongoConnected saveOk now) = True"
| "isStartRound _ = False"

fun isStartGameLoop :: "event \<Rightarrow> bool" where
  "isStartGameLoop (StartGameLoop latestRoundNumber) = True"
| "isStartGameLoop _ = False"

text \<open>What a round commits to: its number, crash point, seed and hash.\<close>

definition secret :: "round \<Rightarrow> int \<times> jsnum \<times> string \<times> string" where
  "secret r = (r_roundNumber r, r_crashPoint r, r_seed r, r_hash r)"

subsection \<open>Sample data for the worked examples\<close>

text \<open>
  A stand-in digest function that maps every text to the all-ones digest, whose first
  8 hex characters spell \<open>4294967295\<close>; with the default bound 100 the crash point is 96.
\<close>

definition sampleSha :: sha256 where
  "sampleSha text = - 1"

text \<open>The wallet a new user gets from the schema defaults.\<close>

definition defaultWallet :: wallet where
  "defaultWallet = (\<lambda>c. 0)(''BTC'' := 1 / 1000, ''ETH'' := 1 / 100)"

text \<open>A service without database (demo mode), and one with alice's and bob's wallets.\<close>

definition demoService :: game where
  "demoService = startGameLoop 0 (newGameService 100 Map.empty)"

definition dbService :: game where
  "dbService =
     startGameLoop 0 (newGameService 100 [''alice'' \<mapsto> defaultWallet, ''bob'' \<mapsto> defaultWallet])"

text \<open>
  The first betting phase of a server whose database is connected: alice, under the
  document id her user record has, owns a wallet with the default balances, and no
  round has been created yet.
\<close>

definition aliceId :: string where
  "aliceId = ''64b7f0c2a1d3e4f5a6b7c8d9''"

definition firstBetting :: game where
  "firstBetting =
     startBettingPhase (startGameLoop 0 (newGameService 100 [aliceId \<mapsto> defaultWallet]))"

text \<open>A user's balance in a currency, when the user has a wallet.\<close>

definition balance :: "game \<Rightarrow> string \<Rightarrow> string \<Rightarrow> rat option" where
  "balance s userId currency = map_option (\<lambda>w. w currency) (wallets s userId)"

text \<open>
  Traces of events for the examples. In \<open>pausedTrace\<close> alice bets, round 1 starts at
  time 3000, one tick fires ten seconds later and the operator pauses. In
  \<open>twoCashouts\<close> alice and bob bet, round 1 starts, one tick fires and both cash out
  before the next tick.
\<close>

definition pausedTrace :: "event list" where
  "pausedTrace =
     [StartBettingPhase, PlaceBet ''alice'' 10 ''BTC'' (1 / 6000) 60000 False 1000,
      StartRound ''5eed'' False True 3000, Tick 13000, PauseGame]"


text \<open>The running state of round 1 in which alice holds a bet and the clock has ticked once.\<close>

definition runningRound :: game where
  "runningRound =
     run sampleSha
       [StartBettingPhase, PlaceBet ''alice'' 10 ''BTC'' (1 / 6000) 60000 False 1000,
        StartRound ''5eed'' False True 3000, Tick 13000]
       demoService"

section \<open>Facts about the hex encoding\<close>

lemma length_toHex: "length (toHex k n) = k"
  by (induction k arbitrary: n) auto

lemma length_hexDigitsOf: "length (hexDigitsOf k n) = k"
  by (induction k arbitrary: n) auto

lemma digitVal_hexChar: "d < 16 \<Longrightarrow> digitVal (hexChar d) = Some d"
  by (auto simp: digitVal_def hexChar_def Let_def)

lemma hexPrefix_append_digit:
  "hexPrefix xs = ds \<Longrightarrow> length ds = length xs \<Longrightarrow> d < 16 \<Longrightarrow>
   hexPrefix (xs @ [hexChar d]) = ds @ [d]"
  by (induction xs arbitrary: ds) (auto simp: digitVal_hexChar split: option.splits)

lemma hexPrefix_toHex: "hexPrefix (toHex k n) = hexDigitsOf k n"
proof (induction k arbitrary: n)
  case 0
  show ?case by simp
next
  case (Suc k)
  then show ?case
    by (simp add: hexPrefix_append_digit length_toHex length_hexDigitsOf)
qed

lemma radix16_snoc: "radix16 (ds @ [d]) = 16 * radix16 ds + d"
  by (simp add: radix16_def)

lemma radix16_hexDigitsOf: "radix16 (hexDigitsOf k n) = n mod 16 ^ k"
proof (induction k arbitrary: n)
  case 0
  show ?case by (simp add: radix16_def)
next
  case (Suc k)
  show ?case by (simp add: radix16_snoc Suc mod_mult2_eq)
qed

lemma take_toHex: "take k (toHex (k + j) n) = toHex k (n div 16 ^ j)"
proof (induction j arbitrary: n)
  case 0
  show ?case by (simp add: length_toHex)
next
  case (Suc j)
  show ?case using Suc [of "n div 16"]
    by (simp add: length_toHex div_mult2_eq)
qed

lemma digitVal_not_special:
  "digitVal c = Some d \<Longrightarrow>
   \<not> isWhite c \<and> c \<noteq> CHR ''-'' \<and> c \<noteq> CHR ''+'' \<and> c \<noteq> CHR ''x'' \<and> c \<noteq> CHR ''X''"
  by (auto simp: digitVal_def isWhite_def Let_def split: if_splits)

lemma hexPrefix_full_Cons:
  "length (hexPrefix (c # cs)) = Suc (length cs) \<Longrightarrow>
   \<exists>d. digitVal c = Some d \<and> length (hexPrefix cs) = length cs"
  by (auto split: option.splits)

lemma parseInt16_all_digits:
  assumes "s \<noteq> []" and "length (hexPrefix s) = length s"
  shows "parseInt16 s = Some (int (radix16 (hexPrefix s)))"
proof -
  from assms obtain c cs where s: "s = c # cs" by (cases s) auto
  from assms(2) s have "length (hexPrefix (c # cs)) = Suc (length cs)" by simp
  from hexPrefix_full_Cons [OF this] obtain d where d: "digitVal c = Some d"
    and cs: "length (hexPrefix cs) = length cs" by blast
  note c = digitVal_not_special [OF d]
  have two: "take 2 s \<noteq> ''0x'' \<and> take 2 s \<noteq> ''0X''"
  proof (cases cs)
    case Nil
    then show ?thesis by (simp add: s)
  next
    case (Cons c' cs')
    with cs have "length (hexPrefix (c' # cs')) = Suc (length cs')" by simp
    from hexPrefix_full_Cons [OF this] obtain d' where "digitVal c' = Some d'" by blast
    from digitVal_not_special [OF this] show ?thesis
      by (simp add: s Cons)
  qed
  have "dropWhile isWhite s = s" using c by (simp add: s)
  moreover have "take 1 s \<noteq> ''-''" "take 1 s \<noteq> ''+''" using c by (simp_all add: s)
  moreover have "hexPrefix s \<noteq> []" using d by (simp add: s)
  ultimately show ?thesis using two
    by (simp add: parseInt16_def Let_def)
qed

lemma parseInt16_toHex:
  assumes "0 < k"
  shows "parseInt16 (toHex k n) = Some (int (n mod 16 ^ k))"
proof -
  have "toHex k n \<noteq> []" using assms length_toHex [of k n] by auto
  moreover have "length (hexPrefix (toHex k n)) = length (toHex k n)"
    by (simp add: hexPrefix_toHex length_hexDigitsOf length_toHex)
  ultimately show ?thesis
    using parseInt16_all_digits [of "toHex k n"]
    by (simp add: hexPrefix_toHex radix16_hexDigitsOf)
qed

section \<open>Facts about rounding to two decimals\<close>

lemma floor_hundredths: "\<lfloor>(of_int a :: rat) * 100 + 1 / 2\<rfloor> = a * 100"
  by (rule floor_unique) simp_all

lemma floor_hundredths_neg: "\<lfloor>1 / 2 - (of_int a :: rat) * 100\<rfloor> = - a * 100"
  by (rule floor_unique) simp_all

lemma round2_of_int: "round2 (of_int z) = of_int z"
proof (cases "0 \<le> z")
  case True
  then have "\<bar>of_int z :: rat\<bar> = of_int z" by simp
  then show ?thesis using True
    by (cases "z = 0") (simp_all add: round2_def floor_hundredths)
next
  case False
  then have "\<bar>of_int z :: rat\<bar> = of_int (- z)" by simp
  then show ?thesis using False
    by (simp add: round2_def floor_hundredths_neg)
qed

lemma round2_one: "round2 1 = 1"
  using round2_of_int [of 1] by simp

lemma round2_one_plus: "round2 (1 + of_int z) = 1 + of_int z"
  using round2_of_int [of "1 + z"] by simp

section \<open>The crash point of a digest\<close>

lemma hashDecimal_less: "hashDecimal w < 2 ^ 32"
proof -
  have "unat w < 2 ^ 256" using unsigned_less [of w] by simp
  then show ?thesis by (simp add: hashDecimal_def less_mult_imp_div_less)
qed

lemma parseInt16_digest:
  "parseInt16 (take 8 (digestHex w)) = Some (int (hashDecimal w))"
proof -
  have "take 8 (toHex (8 + 56) (unat w)) = toHex 8 (unat w div 16 ^ 56)"
    by (rule take_toHex)
  moreover have "hashDecimal w mod 16 ^ 8 = hashDecimal w"
    using hashDecimal_less [of w] by simp
  ultimately show ?thesis
    by (simp add: digestHex_def parseInt16_toHex hashDecimal_def)
qed

lemma calculateCrashPoint_digest:
  "m \<noteq> 0 \<Longrightarrow>
   calculateCrashPoint (digestHex w) m = Num (1 + of_int (int (hashDecimal w) mod \<bar>m\<bar>))"
  by (simp add: calculateCrashPoint_def Let_def parseInt16_digest js_rem_def
      round2_one_plus round2_one)

lemma generateCrashPoint_calculate:
  "generateCrashPoint sha m seed rn =
     \<lparr>pm_crashPoint = calculateCrashPoint (generateHash sha seed rn) m,
      pm_seed = seed, pm_hash = generateHash sha seed rn\<rparr>"
  by (simp add: generateCrashPoint_def calculateCrashPoint_def generateHash_def Let_def)


lemma generateCrashPoint_hash:
  "pm_hash (generateCrashPoint sha m seed rn) = generateHash sha seed rn"
  by (simp add: generateCrashPoint_calculate)

lemma configMaxCrashValue_nonzero: "configMaxCrashValue env \<noteq> 0"
  by (simp add: configMaxCrashValue_def split: option.splits)

lemma hashDecimal_sample: "hashDecimal (sampleSha t) = 4294967295"
  by (simp add: sampleSha_def hashDecimal_def unsigned_minus_1_eq_mask mask_eq_exp_minus_1)

lemma crashPoint_sample:
  "pm_crashPoint (generateCrashPoint sampleSha 100 seed rn) = Num 96"
  using calculateCrashPoint_digest [of 100 "sampleSha (seed @ '':'' @ numberToString rn)"]
  by (simp add: generateCrashPoint_calculate generateHash_def hashDecimal_sample)

section \<open>The fairness proof\<close>

text \<open>
  Claim C1. For every seed and round number, \<open>verifyCrashPoint\<close> accepts the hash and
  the crash point that the generator produced for that seed and round number under the
  same crash bound: both those of \<open>GameService.generateCrashPoint\<close> and those of
  \<open>generateHash\<close> followed by \<open>calculateCrashPoint\<close>. The bound is any integer but
  \<open>0\<close>, which covers every value the configuration can give
  (\<open>configMaxCrashValue_nonzero\<close>).
\<close>

theorem fairness_roundtrip:
  "maxCrash \<noteq> 0 \<Longrightarrow>
   verifyCrashPoint sha seed roundNo
     (pm_hash (generateCrashPoint sha maxCrash seed roundNo))
     (pm_crashPoint (generateCrashPoint sha maxCrash seed roundNo))
     maxCrash
   \<and> verifyCrashPoint sha seed roundNo
     (generateHash sha seed roundNo)
     (calculateCrashPoint (generateHash sha seed roundNo) maxCrash)
     maxCrash"
  by (simp add: generateCrashPoint_calculate verifyCrashPoint_def
      generateHash_def calculateCrashPoint_digest)

theorem fairness_roundtrip_witness:
  "(100 :: int) \<noteq> 0 \<and>
   verifyCrashPoint sampleSha ''5eed'' 1
     (pm_hash (generateCrashPoint sampleSha 100 ''5eed'' 1))
     (pm_crashPoint (generateCrashPoint sampleSha 100 ''5eed'' 1))
     100"
  using fairness_roundtrip [of 100 sampleSha "''5eed''" 1] by simp

text \<open>
  Claim C4. For every seed and every crash bound of at least 1, the first 8 hex
  characters of the hash parse to a number \<open>d\<close> below \<open>2 ^ 32\<close>, and the generated crash
  point is \<open>round2 (1 + d mod maxCrash)\<close>; it lies in \<open>[1, 1 + maxCrash)\<close> and is a
  whole number of hundredths.
\<close>

theorem crashPoint_range:
  assumes "1 \<le> maxCrash"
  shows "\<exists>d c. parseInt16 (take 8 (pm_hash (generateCrashPoint sha maxCrash seed roundNo)))
              = Some (int d)
           \<and> d < 2 ^ 32
           \<and> pm_crashPoint (generateCrashPoint sha maxCrash seed roundNo) = Num c
           \<and> c = round2 (1 + of_int (int d mod maxCrash))
           \<and> 1 \<le> c \<and> c < 1 + of_int maxCrash
           \<and> (\<exists>n :: int. c = of_int n / 100)"
proof -
  let ?w = "sha (seed @ '':'' @ numberToString roundNo)"
  let ?d = "hashDecimal ?w"
  let ?c = "1 + of_int (int ?d mod maxCrash) :: rat"
  have m: "maxCrash \<noteq> 0" "\<bar>maxCrash\<bar> = maxCrash" using assms by simp_all
  have "pm_crashPoint (generateCrashPoint sha maxCrash seed roundNo) = Num ?c"
    using calculateCrashPoint_digest [OF m(1), of ?w] m(2)
    by (simp add: generateCrashPoint_calculate generateHash_def)
  moreover have "parseInt16 (take 8 (pm_hash (generateCrashPoint sha maxCrash seed roundNo)))
      = Some (int ?d)"
    by (simp add: generateCrashPoint_calculate generateHash_def parseInt16_digest)
  moreover have "?c = round2 (1 + of_int (int ?d mod maxCrash))"
    by (simp only: round2_one_plus)
  moreover have "1 \<le> ?c" using assms by simp
  moreover have "?c < 1 + of_int maxCrash" using assms by simp
  moreover have "?c = of_int (100 * (1 + int ?d mod maxCrash)) / 100" by simp
  ultimately show ?thesis using hashDecimal_less [of ?w] by blast
qed

theorem crashPoint_range_witness:
  "(1 :: int) \<le> 100 \<and>
   (\<exists>d c. parseInt16 (take 8 (pm_hash (generateCrashPoint sampleSha 100 ''5eed'' 1))) = Some (int d)
      \<and> d < 2 ^ 32
      \<and> pm_crashPoint (generateCrashPoint sampleSha 100 ''5eed'' 1) = Num c
      \<and> c = round2 (1 + of_int (int d mod 100))
      \<and> 1 \<le> c \<and> c < 1 + of_int 100
      \<and> (\<exists>n :: int. c = of_int n / 100))"
  using crashPoint_range [of 100 sampleSha "''5eed''" 1] by simp

text \<open>
  Claim C10. Every generated crash point is a whole number: it is \<open>1 + d mod maxCrash\<close>
  for the number \<open>d\<close> spelled by the first 8 hex characters of the hash, so between 1 and
  the crash bound. The bound is any integer but \<open>0\<close>; \<^verbatim>\<open>%\<close> ignores its sign.
\<close>

theorem crashPoint_whole_number:
  assumes "maxCrash \<noteq> 0"
  shows "\<exists>k :: int. pm_crashPoint (generateCrashPoint sha maxCrash seed roundNo) = Num (of_int k)
           \<and> 1 \<le> k \<and> k \<le> \<bar>maxCrash\<bar>
           \<and> k = 1 + int (hashDecimal (sha (seed @ '':'' @ numberToString roundNo))) mod \<bar>maxCrash\<bar>"
proof -
  let ?w = "sha (seed @ '':'' @ numberToString roundNo)"
  let ?k = "1 + int (hashDecimal ?w) mod \<bar>maxCrash\<bar>"
  have "pm_crashPoint (generateCrashPoint sha maxCrash seed roundNo) = Num (of_int ?k)"
    using calculateCrashPoint_digest [OF assms, of ?w]
    by (simp add: generateCrashPoint_calculate generateHash_def)
  moreover have "1 \<le> ?k" using assms by simp
  moreover have "?k \<le> \<bar>maxCrash\<bar>"
  proof -
    have "0 < \<bar>maxCrash\<bar>" using assms by simp
    then have "int (hashDecimal ?w) mod \<bar>maxCrash\<bar> < \<bar>maxCrash\<bar>"
      by (rule pos_mod_bound)
    then show ?thesis by linarith
  qed
  ultimately show ?thesis by blast
qed

theorem crashPoint_whole_number_witness:
  "(100 :: int) \<noteq> 0 \<and>
   pm_crashPoint (generateCrashPoint sampleSha 100 ''5eed'' 1) = Num (of_int 96)"
  using crashPoint_whole_number [of 100 sampleSha "''5eed''" 1]
  by (auto simp: hashDecimal_sample)

section \<open>What a request changes\<close>

lemma placeBet_error_unchanged:
  "placeBet u a c ca p m n s = (Inl e, s') \<Longrightarrow> e \<noteq> TransactionValidation \<Longrightarrow> s' = s"
  by (auto simp: placeBet_def Let_def split: if_splits option.splits sum.splits prod.splits)

lemma cashOut_error_unchanged:
  "cashOut u m n s = (Inl e, s') \<Longrightarrow> e \<noteq> TransactionValidation \<Longrightarrow> s' = s"
  by (auto simp: cashOut_def Let_def split: if_splits option.splits sum.splits prod.splits)

lemma placeBet_frame:
  "currentMultiplier (snd (placeBet u a c ca p m n s)) = currentMultiplier s
   \<and> multiplierUpdateTimer (snd (placeBet u a c ca p m n s)) = multiplierUpdateTimer s
   \<and> isGameRunning (snd (placeBet u a c ca p m n s)) = isGameRunning s
   \<and> roundPhase (snd (placeBet u a c ca p m n s)) = roundPhase s
   \<and> roundNumber (snd (placeBet u a c ca p m n s)) = roundNumber s
   \<and> cashedOut (snd (placeBet u a c ca p m n s)) = cashedOut s
   \<and> map_option secret (currentRound (snd (placeBet u a c ca p m n s))) = map_option secret (currentRound s)
   \<and> map_option r_cashouts (currentRound (snd (placeBet u a c ca p m n s))) = map_option r_cashouts (currentRound s)"
  by (auto simp: placeBet_def Let_def secret_def split: if_splits option.splits sum.splits prod.splits)

lemma cashOut_frame:
  "currentMultiplier (snd (cashOut u m n s)) = currentMultiplier s
   \<and> multiplierUpdateTimer (snd (cashOut u m n s)) = multiplierUpdateTimer s
   \<and> isGameRunning (snd (cashOut u m n s)) = isGameRunning s
   \<and> roundPhase (snd (cashOut u m n s)) = roundPhase s
   \<and> roundNumber (snd (cashOut u m n s)) = roundNumber s
   \<and> activeBets (snd (cashOut u m n s)) = activeBets s
   \<and> map_option secret (currentRound (snd (cashOut u m n s))) = map_option secret (currentRound s)"
  by (auto simp: cashOut_def Let_def secret_def split: if_splits option.splits sum.splits prod.splits)

lemma placeBet_activeBets_mono:
  "activeBets s v \<noteq> None \<Longrightarrow> activeBets (snd (placeBet u a c ca p m n s)) v \<noteq> None"
  by (auto simp: placeBet_def Let_def split: if_splits option.splits sum.splits prod.splits)

lemma cashOut_cashedOut_mono:
  "v \<in> cashedOut s \<Longrightarrow> v \<in> cashedOut (snd (cashOut u m n s))"
  by (auto simp: cashOut_def Let_def split: if_splits option.splits sum.splits prod.splits)

lemma placeBet_success:
  "placeBet u a c ca p m n s = (Inr b, s') \<Longrightarrow>
   activeBets s' u = Some b \<and> roundPhase s = Betting \<and> activeBets s u = None"
  by (auto simp: placeBet_def Let_def split: if_splits option.splits sum.splits prod.splits)

lemma cashOut_success:
  "cashOut u m n s = (Inr c, s') \<Longrightarrow>
   u \<in> cashedOut s' \<and> activeBets s u \<noteq> None \<and> u \<notin> cashedOut s
   \<and> roundPhase s = Running \<and> isGameRunning s \<and> co_multiplier c = currentMultiplier s"
  by (auto simp: cashOut_def Let_def split: if_splits option.splits sum.splits prod.splits)

section \<open>The ledger within one phase\<close>

lemma step_activeBets_mono:
  "ev \<noteq> StartBettingPhase \<Longrightarrow> activeBets s v \<noteq> None \<Longrightarrow> activeBets (step sha s ev) v \<noteq> None"
  by (cases ev)
     (simp_all add: placeBet_activeBets_mono cashOut_frame scheduleNextRound_def startRound_def
       startGameLoop_def
       startMultiplierUpdates_def tick_def crashGame_def pauseGame_def resumeGame_def
       stopGame_def startNewGame_def Let_def split: option.splits prod.splits)

lemma step_cashedOut_mono:
  "ev \<noteq> StartBettingPhase \<Longrightarrow> v \<in> cashedOut s \<Longrightarrow> v \<in> cashedOut (step sha s ev)"
  by (cases ev)
     (simp_all add: cashOut_cashedOut_mono placeBet_frame scheduleNextRound_def startRound_def
       startGameLoop_def
       startMultiplierUpdates_def tick_def crashGame_def pauseGame_def resumeGame_def
       stopGame_def startNewGame_def Let_def split: option.splits prod.splits)

lemma run_Nil: "run sha [] s = s"
  by (simp add: run_def)

lemma run_Cons: "run sha (ev # evs) s = run sha evs (step sha s ev)"
  by (simp add: run_def)

lemma run_activeBets_mono:
  "StartBettingPhase \<notin> set evs \<Longrightarrow> activeBets s v \<noteq> None \<Longrightarrow>
   activeBets (run sha evs s) v \<noteq> None"
proof (induction evs arbitrary: s)
  case Nil
  then show ?case by (simp add: run_Nil)
next
  case (Cons ev evs)
  from Cons.prems have "ev \<noteq> StartBettingPhase" "StartBettingPhase \<notin> set evs" by auto
  with Cons.prems(2) show ?case
    by (simp add: run_Cons step_activeBets_mono Cons.IH)
qed

lemma run_cashedOut_mono:
  "StartBettingPhase \<notin> set evs \<Longrightarrow> v \<in> cashedOut s \<Longrightarrow> v \<in> cashedOut (run sha evs s)"
proof (induction evs arbitrary: s)
  case Nil
  then show ?case by (simp add: run_Nil)
next
  case (Cons ev evs)
  from Cons.prems have "ev \<noteq> StartBettingPhase" "StartBettingPhase \<notin> set evs" by auto
  with Cons.prems(2) show ?case
    by (simp add: run_Cons step_cashedOut_mono Cons.IH)
qed

lemma placeBet_duplicate:
  "u \<noteq> [] \<Longrightarrow> 0 < a \<Longrightarrow> c \<in> set supportedCurrencies \<Longrightarrow> roundPhase s = Betting \<Longrightarrow>
   activeBets s u \<noteq> None \<Longrightarrow> placeBet u a c ca p m n s = (Inl ActiveBetExists, s)"
  by (auto simp: placeBet_def supportedCurrencies_def)

lemma cashOut_duplicate:
  "u \<noteq> [] \<Longrightarrow> isGameRunning s \<Longrightarrow> roundPhase s = Running \<Longrightarrow> activeBets s u \<noteq> None \<Longrightarrow>
   u \<in> cashedOut s \<Longrightarrow> cashOut u m n s = (Inl AlreadyCashedOut, s)"
  by (auto simp: cashOut_def)

lemma cashOut_after_cashedOut:
  "u \<in> cashedOut s \<Longrightarrow> \<exists>e. cashOut u m n s = (Inl e, s)"
  by (auto simp: cashOut_def split: option.splits)

lemma placeBet_nonempty_user: "placeBet u a c ca p m n s = (Inr b, s') \<Longrightarrow> u \<noteq> []"
  by (auto simp: placeBet_def split: if_splits)

lemma cashOut_nonempty_user: "cashOut u m n s = (Inr c, s') \<Longrightarrow> u \<noteq> []"
  by (auto simp: cashOut_def split: if_splits)

section \<open>The round's secret\<close>

lemma step_secret:
  "\<not> isStartRound ev \<Longrightarrow>
   map_option secret (currentRound (step sha s ev)) = map_option secret (currentRound s)"
  by (cases ev)
     (simp_all add: placeBet_frame cashOut_frame scheduleNextRound_def startBettingPhase_def
       startGameLoop_def tick_def crashGame_def pauseGame_def resumeGame_def
       startMultiplierUpdates_def stopGame_def startNewGame_def Let_def secret_def
       split: option.splits prod.splits)

lemma step_roundNumber:
  "\<not> isStartRound ev \<Longrightarrow> \<not> isStartGameLoop ev \<Longrightarrow>
   roundNumber (step sha s ev) = roundNumber s"
  by (cases ev)
     (simp_all add: placeBet_frame cashOut_frame scheduleNextRound_def startBettingPhase_def
       tick_def crashGame_def pauseGame_def resumeGame_def startMultiplierUpdates_def
       stopGame_def startNewGame_def Let_def split: option.splits prod.splits)

lemma startGameLoop_roundNumber:
  "roundNumber (startGameLoop latest s) = latest
   \<and> currentRound (startGameLoop latest s) = currentRound s"
  by (simp add: startGameLoop_def scheduleNextRound_def)

lemma run_secret:
  "list_all (\<lambda>ev. \<not> isStartRound ev) evs \<Longrightarrow>
   map_option secret (currentRound (run sha evs s)) = map_option secret (currentRound s)"
proof (induction evs arbitrary: s)
  case Nil
  show ?case by (simp add: run_Nil)
next
  case (Cons ev evs)
  from Cons.prems have "\<not> isStartRound ev" "list_all (\<lambda>ev. \<not> isStartRound ev) evs" by simp_all
  then show ?case using Cons.IH [of "step sha s ev"] step_secret [of ev sha s]
    by (simp add: run_Cons)
qed

lemma startRound_secret:
  "map_option secret (currentRound (startRound sha seed m ok now s)) =
     Some (roundNumber s + 1,
           pm_crashPoint (generateCrashPoint sha (maxCrashValue s) seed (roundNumber s + 1)),
           seed,
           pm_hash (generateCrashPoint sha (maxCrashValue s) seed (roundNumber s + 1)))
   \<and> roundNumber (startRound sha seed m ok now s) = roundNumber s + 1"
  by (simp add: startRound_def Let_def secret_def scheduleNextRound_def
      startMultiplierUpdates_def generateCrashPoint_def)

section \<open>The multiplier clock\<close>











lemma startRound_multiplier: "currentMultiplier (startRound sha seed m ok now s) = 1"
  by (simp add: startRound_def Let_def scheduleNextRound_def startMultiplierUpdates_def
      initialMultiplier_def)


section \<open>Evaluating the examples\<close>

lemmas engine_defs =
  run_def demoService_def dbService_def newGameService_def startGameLoop_def
  scheduleNextRound_def startBettingPhase_def startRound_def startMultiplierUpdates_def
  crashGame_def tick_def pauseGame_def resumeGame_def stopGame_def startNewGame_def
  placeBet_def cashOut_def updateBalance_def gameRoundIdValid_def supportedCurrencies_def
  defaultWallet_def firstBetting_def aliceId_def balance_def
  initialMultiplier_def growthFactor_def crashPoint_sample Let_def

section \<open>The round's crash point and seed\<close>

text \<open>
  Claim C2, as amended. The crash point and the seed of a round record are generated
  once, in one step, when \<open>startRound\<close> enters the running phase: the round counter goes
  up by one and the new round record holds exactly what \<open>generateCrashPoint\<close> returns
  for the new number and the fresh seed. That is after the betting phase in which the
  wagers of that round were accepted. No event other than the next \<open>startRound\<close>
  changes the number, crash point, seed or hash held by the round record. The round
  counter of the service is changed only by \<open>startRound\<close> and by \<open>startGameLoop\<close>, which
  overwrites it with the number it has read and leaves the round record as it is.
\<close>

theorem round_secret_fixed:
  "map_option secret (currentRound (startRound sha seed isMongoConnected saveOk now s)) =
     Some (roundNumber s + 1,
           pm_crashPoint (generateCrashPoint sha (maxCrashValue s) seed (roundNumber s + 1)),
           seed,
           pm_hash (generateCrashPoint sha (maxCrashValue s) seed (roundNumber s + 1)))
   \<and> roundNumber (startRound sha seed isMongoConnected saveOk now s) = roundNumber s + 1
   \<and> (list_all (\<lambda>ev. \<not> isStartRound ev) evs \<longrightarrow>
        map_option secret (currentRound (run sha evs s')) = map_option secret (currentRound s'))
   \<and> (\<not> isStartRound ev \<and> \<not> isStartGameLoop ev \<longrightarrow>
        roundNumber (step sha s' ev) = roundNumber s')
   \<and> roundNumber (startGameLoop latest s') = latest
   \<and> currentRound (startGameLoop latest s') = currentRound s'"
  using startRound_secret [of sha seed isMongoConnected saveOk now s] run_secret [of evs sha s']
    step_roundNumber [of ev sha s'] startGameLoop_roundNumber [of latest s']
  by blast

theorem round_secret_fixed_witness:
  "list_all (\<lambda>ev. \<not> isStartRound ev)
     [Tick 13000, PauseGame, ResumeGame 20000, StartGameLoop 0, CashOut ''alice'' False 20050,
      Tick 20100]
   \<and> map_option secret (currentRound (run sampleSha
        [Tick 13000, PauseGame, ResumeGame 20000, StartGameLoop 0, CashOut ''alice'' False 20050,
         Tick 20100]
        (startRound sampleSha ''5eed'' False True 3000 demoService)))
      = Some (1, Num 96, ''5eed'', generateHash sampleSha ''5eed'' 1)
   \<and> \<not> isStartRound PauseGame \<and> \<not> isStartGameLoop PauseGame
   \<and> roundNumber (step sampleSha (startRound sampleSha ''5eed'' False True 3000 demoService) PauseGame)
      = 1
   \<and> roundNumber (startGameLoop 0 (startRound sampleSha ''5eed'' False True 3000 demoService)) = 0"
proof -
  let ?evs = "[Tick 13000, PauseGame, ResumeGame 20000, StartGameLoop 0,
      CashOut ''alice'' False 20050, Tick 20100]"
  let ?s0 = "startRound sampleSha ''5eed'' False True 3000 demoService"
  note fixed = round_secret_fixed [where sha = sampleSha and seed = "''5eed''"
      and isMongoConnected = False and saveOk = True and now = 3000 and s = demoService
      and evs = ?evs and s' = ?s0 and ev = PauseGame and latest = 0]
  have d: "roundNumber demoService = 0" "maxCrashValue demoService = 100"
    by (simp_all add: demoService_def newGameService_def startGameLoop_def scheduleNextRound_def)
  have evs: "list_all (\<lambda>ev. \<not> isStartRound ev) ?evs" by simp
  have ev: "\<not> isStartRound PauseGame" "\<not> isStartGameLoop PauseGame" by simp_all
  from fixed have created: "map_option secret (currentRound ?s0)
      = Some (1, Num 96, ''5eed'', generateHash sampleSha ''5eed'' 1)"
    by (simp add: d crashPoint_sample generateCrashPoint_hash)
  from fixed have n: "roundNumber ?s0 = 1" by (simp add: d)
  from fixed evs
  have kept: "map_option secret (currentRound (run sampleSha ?evs ?s0))
      = map_option secret (currentRound ?s0)"
    by blast
  from fixed ev have "roundNumber (step sampleSha ?s0 PauseGame) = roundNumber ?s0" by blast
  then have paused: "roundNumber (step sampleSha ?s0 PauseGame) = 1" by (simp only: n)
  from fixed have reset: "roundNumber (startGameLoop 0 ?s0) = 0" by blast
  from created kept have "map_option secret (currentRound (run sampleSha ?evs ?s0))
      = Some (1, Num 96, ''5eed'', generateHash sampleSha ''5eed'' 1)"
    by simp
  with evs ev paused reset show ?thesis by blast
qed

text \<open>
  Claim C2 as stated fails: in the betting phase before round 1 alice's wager is
  accepted while no round record, so no crash point and no seed, exists; the crash
  point of round 1 is generated afterwards, by \<open>startRound\<close>, with the wager already in
  the ledger.
\<close>

theorem wager_before_crash_point_counterexample:
  "currentRound (startBettingPhase demoService) = None
   \<and> fst (placeBet ''alice'' 10 ''BTC'' (1 / 6000) 60000 False 1000 (startBettingPhase demoService))
       = Inr \<lparr>bet_userId = ''alice'', bet_usdAmount = 10, bet_cryptoAmount = 1 / 6000,
              bet_currency = ''BTC'', bet_transactionId = DemoTx 1000\<rparr>
   \<and> currentRound
        (snd (placeBet ''alice'' 10 ''BTC'' (1 / 6000) 60000 False 1000 (startBettingPhase demoService)))
       = None
   \<and> map_option r_crashPoint (currentRound (startRound sampleSha ''5eed'' False True 3000
        (snd (placeBet ''alice'' 10 ''BTC'' (1 / 6000) 60000 False 1000 (startBettingPhase demoService)))))
       = Some (Num 96)
   \<and> activeBets (startRound sampleSha ''5eed'' False True 3000
        (snd (placeBet ''alice'' 10 ''BTC'' (1 / 6000) 60000 False 1000 (startBettingPhase demoService))))
        ''alice''
       = Some \<lparr>bet_userId = ''alice'', bet_usdAmount = 10, bet_cryptoAmount = 1 / 6000,
               bet_currency = ''BTC'', bet_transactionId = DemoTx 1000\<rparr>"
  by (simp add: engine_defs)

section \<open>Pause and resume\<close>

text \<open>
  Claim C3, as amended. Pausing a running round clears the multiplier clock and leaves
  the stored multiplier and the round record as they are; while paused a tick changes
  nothing. Resume re-enters the running phase with the same round record and the same
  crash point, keeps the stored multiplier until the next tick, and restarts the clock
  at the resume instant: a tick at time \<open>t\<close> after resume sets the multiplier to
  \<open>1 + (t - now) * growthFactor\<close>, where \<open>now\<close> is the time of the resume, so the time
  elapsed before the pause is not carried over. The next round's running entry sets
  the multiplier to exactly 1.
\<close>

theorem pause_resume:
  assumes "roundPhase s = Running" and "isGameRunning s"
    and "currentRound s = Some r" and "js_truthy (r_crashPoint r)"
  shows "roundPhase (pauseGame s) = Paused
       \<and> multiplierUpdateTimer (pauseGame s) = None
       \<and> tick t (pauseGame s) = pauseGame s
       \<and> currentMultiplier (pauseGame s) = currentMultiplier s
       \<and> currentRound (pauseGame s) = Some r
       \<and> roundPhase (resumeGame now (pauseGame s)) = Running
       \<and> isGameRunning (resumeGame now (pauseGame s))
       \<and> currentRound (resumeGame now (pauseGame s)) = Some r
       \<and> multiplierUpdateTimer (resumeGame now (pauseGame s)) = Some (now, r_crashPoint r)
       \<and> currentMultiplier (resumeGame now (pauseGame s)) = currentMultiplier s
       \<and> currentMultiplier (tick t (resumeGame now (pauseGame s)))
           = 1 + of_int (t - now) * growthFactor
       \<and> currentMultiplier (startRound sha seed isMongoConnected saveOk now' s') = 1"
  using assms
  by (simp add: pauseGame_def resumeGame_def startMultiplierUpdates_def tick_def crashGame_def
      Let_def initialMultiplier_def startRound_multiplier)

theorem pause_resume_witness:
  "roundPhase runningRound = Running \<and> isGameRunning runningRound
   \<and> map_option r_crashPoint (currentRound runningRound) = Some (Num 96)
   \<and> js_truthy (Num 96)
   \<and> currentMultiplier runningRound = 3 / 2
   \<and> currentMultiplier (pauseGame runningRound) = 3 / 2
   \<and> multiplierUpdateTimer (resumeGame 20000 (pauseGame runningRound)) = Some (20000, Num 96)
   \<and> currentMultiplier (tick 20100 (resumeGame 20000 (pauseGame runningRound))) = 201 / 200"
proof -
  have r: "currentRound runningRound = Some (the (currentRound runningRound))"
    and c: "r_crashPoint (the (currentRound runningRound)) = Num 96"
    and rc: "map_option r_crashPoint (currentRound runningRound) = Some (Num 96)"
    and p: "roundPhase runningRound = Running" "isGameRunning runningRound"
    and m: "currentMultiplier runningRound = 3 / 2"
    by (simp_all add: runningRound_def engine_defs)
  have t: "js_truthy (r_crashPoint (the (currentRound runningRound)))" by (simp add: c)
  note pr = pause_resume [OF p r t, of 20100 20000]
  from pr have "currentMultiplier (pauseGame runningRound) = 3 / 2" by (simp add: m)
  moreover from pr
  have "multiplierUpdateTimer (resumeGame 20000 (pauseGame runningRound)) = Some (20000, Num 96)"
    by (simp add: c)
  moreover from pr
  have "currentMultiplier (tick 20100 (resumeGame 20000 (pauseGame runningRound))) = 201 / 200"
    by (simp add: growthFactor_def)
  ultimately show ?thesis using p rc m by simp
qed

text \<open>
  Claim C3 as stated fails: round 1 is paused ten seconds after its start with the
  multiplier at 1.5; after the resume the next tick puts the multiplier at 1.005, below
  the value it was frozen at, in the same round.
\<close>

theorem resume_restarts_clock_counterexample:
  "currentMultiplier (run sampleSha pausedTrace demoService) = 3 / 2
   \<and> roundPhase (run sampleSha pausedTrace demoService) = Paused
   \<and> roundNumber (run sampleSha pausedTrace demoService) = 1
   \<and> currentMultiplier (run sampleSha (pausedTrace @ [ResumeGame 20000, Tick 20100]) demoService)
       = 201 / 200
   \<and> roundPhase (run sampleSha (pausedTrace @ [ResumeGame 20000, Tick 20100]) demoService) = Running
   \<and> roundNumber (run sampleSha (pausedTrace @ [ResumeGame 20000, Tick 20100]) demoService) = 1"
  by (simp add: engine_defs pausedTrace_def)

section \<open>Cashouts and the multiplier\<close>






section \<open>Wagers and cashouts\<close>

text \<open>
  Claim C7. When the database is connected and the user's wallet holds less than the
  wager's asset amount, \<open>placeBet\<close> on an otherwise acceptable request fails with the
  insufficient-balance error and returns the state as it was. Whenever \<open>placeBet\<close> fails
  with that error, nothing has changed: the state is the same, so the wallets are, and
  the ledger holds no wager for that user.
\<close>

theorem placeBet_insufficient_funds:
  "(u \<noteq> [] \<and> 0 < a \<and> c \<in> set supportedCurrencies \<and> roundPhase s = Betting
      \<and> activeBets s u = None \<and> wallets s u = Some w \<and> w c < ca
    \<longrightarrow> placeBet u a c ca p True n s = (Inl (InsufficientBalance c), s))
   \<and> (placeBet u a c ca p m n s = (Inl (InsufficientBalance c'), s')
    \<longrightarrow> s' = s \<and> activeBets s' u = None \<and> wallets s' = wallets s)"
  by (auto simp: placeBet_def Let_def supportedCurrencies_def
      split: if_splits option.splits sum.splits prod.splits)

theorem placeBet_insufficient_funds_witness:
  "''BTC'' \<in> set supportedCurrencies
   \<and> roundPhase (startBettingPhase dbService) = Betting
   \<and> activeBets (startBettingPhase dbService) ''alice'' = None
   \<and> wallets (startBettingPhase dbService) ''alice'' = Some defaultWallet
   \<and> defaultWallet ''BTC'' < 1 / 600
   \<and> placeBet ''alice'' 100 ''BTC'' (1 / 600) 60000 True 1000 (startBettingPhase dbService)
       = (Inl (InsufficientBalance ''BTC''), startBettingPhase dbService)
   \<and> wallets (snd (placeBet ''alice'' 100 ''BTC'' (1 / 600) 60000 True 1000 (startBettingPhase dbService)))
       = wallets (startBettingPhase dbService)"
proof -
  let ?s = "startBettingPhase dbService"
  have h: "''alice'' \<noteq> []" "(0 :: rat) < 100" "''BTC'' \<in> set supportedCurrencies"
    "roundPhase ?s = Betting" "activeBets ?s ''alice'' = None"
    "wallets ?s ''alice'' = Some defaultWallet" "defaultWallet ''BTC'' < 1 / 600"
    by (simp_all add: engine_defs)
  note funds = placeBet_insufficient_funds [of "''alice''" 100 "''BTC''" ?s defaultWallet "1 / 600"
      60000 1000 True "''BTC''" ?s]
  from funds h
  have r: "placeBet ''alice'' 100 ''BTC'' (1 / 600) 60000 True 1000 ?s = (Inl (InsufficientBalance ''BTC''), ?s)"
    by blast
  then have "wallets (snd (placeBet ''alice'' 100 ''BTC'' (1 / 600) 60000 True 1000 ?s)) = wallets ?s"
    by simp
  with h r show ?thesis by blast
qed

text \<open>
  What the ledger does guarantee: once \<open>placeBet\<close> has returned a bet, any further
  well-formed \<open>placeBet\<close> of that user later in the same betting phase fails with the
  active-bet error and returns the state as it was; once \<open>cashOut\<close> has returned a
  cashout, any further \<open>cashOut\<close> of that user before the next betting phase fails and
  returns the state as it was.
\<close>

lemma second_request_after_success:
  assumes "StartBettingPhase \<notin> set evs"
  shows "(placeBet u a c ca p m n s = (Inr b, s1) \<and> roundPhase (run sha evs s1) = Betting
            \<and> 0 < a' \<and> c' \<in> set supportedCurrencies
          \<longrightarrow> placeBet u a' c' ca' p' m' n' (run sha evs s1) = (Inl ActiveBetExists, run sha evs s1))
       \<and> (cashOut u m n s = (Inr co, s2) \<and> isGameRunning (run sha evs s2)
            \<and> roundPhase (run sha evs s2) = Running
          \<longrightarrow> cashOut u m' n' (run sha evs s2) = (Inl AlreadyCashedOut, run sha evs s2))
       \<and> (cashOut u m n s = (Inr co, s2)
          \<longrightarrow> (\<exists>e. cashOut u m' n' (run sha evs s2) = (Inl e, run sha evs s2)))"
proof (intro conjI impI)
  assume h: "placeBet u a c ca p m n s = (Inr b, s1) \<and> roundPhase (run sha evs s1) = Betting
            \<and> 0 < a' \<and> c' \<in> set supportedCurrencies"
  then have "activeBets s1 u \<noteq> None" using placeBet_success by fastforce
  then have "activeBets (run sha evs s1) u \<noteq> None"
    using assms by (rule run_activeBets_mono [rotated])
  moreover have "u \<noteq> []" using h placeBet_nonempty_user by blast
  ultimately show "placeBet u a' c' ca' p' m' n' (run sha evs s1) = (Inl ActiveBetExists, run sha evs s1)"
    using h by (simp add: placeBet_duplicate)
next
  assume h: "cashOut u m n s = (Inr co, s2) \<and> isGameRunning (run sha evs s2)
            \<and> roundPhase (run sha evs s2) = Running"
  then have s2: "s2 = snd (cashOut u m n s)" by simp
  from h have "u \<in> cashedOut s2" "activeBets s u \<noteq> None" using cashOut_success by blast+
  then have "u \<in> cashedOut (run sha evs s2)" "activeBets (run sha evs s2) u \<noteq> None"
    using assms by (simp_all add: run_cashedOut_mono run_activeBets_mono s2 cashOut_frame)
  moreover have "u \<noteq> []" using h cashOut_nonempty_user by blast
  ultimately show "cashOut u m' n' (run sha evs s2) = (Inl AlreadyCashedOut, run sha evs s2)"
    using h by (simp add: cashOut_duplicate)
next
  assume h: "cashOut u m n s = (Inr co, s2)"
  then have "u \<in> cashedOut s2" using cashOut_success by blast
  then have "u \<in> cashedOut (run sha evs s2)"
    using assms by (simp add: run_cashedOut_mono)
  then show "\<exists>e. cashOut u m' n' (run sha evs s2) = (Inl e, run sha evs s2)"
    by (rule cashOut_after_cashedOut)
qed

text \<open>
  Claim C8 does not hold of the code. In the first betting phase of a server with its
  database connected no round exists yet, so the transaction of a wager has no
  \<open>gameRoundId\<close>: \<open>placeBet\<close> debits alice's wallet, the save of the transaction throws,
  and the wager is never entered in the ledger. Her second \<open>placeBet\<close> in the same
  betting phase therefore passes the active-bet check, fails with the same validation
  error instead of the active-bet error, and debits the wallet a second time: the
  balance goes from 0.001 to 0.0005 to 0.
\<close>

theorem second_wager_debits_again:
  "roundPhase firstBetting = Betting
   \<and> currentRound firstBetting = None
   \<and> balance firstBetting aliceId ''BTC'' = Some (1 / 1000)
   \<and> fst (placeBet aliceId 30 ''BTC'' (1 / 2000) 60000 True 1000 firstBetting)
       = Inl TransactionValidation
   \<and> balance (snd (placeBet aliceId 30 ''BTC'' (1 / 2000) 60000 True 1000 firstBetting))
        aliceId ''BTC'' = Some (1 / 2000)
   \<and> activeBets (snd (placeBet aliceId 30 ''BTC'' (1 / 2000) 60000 True 1000 firstBetting))
        aliceId = None
   \<and> roundPhase (snd (placeBet aliceId 30 ''BTC'' (1 / 2000) 60000 True 1000 firstBetting))
       = Betting
   \<and> fst (placeBet aliceId 30 ''BTC'' (1 / 2000) 60000 True 2000
        (snd (placeBet aliceId 30 ''BTC'' (1 / 2000) 60000 True 1000 firstBetting)))
       = Inl TransactionValidation
   \<and> balance (snd (placeBet aliceId 30 ''BTC'' (1 / 2000) 60000 True 2000
        (snd (placeBet aliceId 30 ''BTC'' (1 / 2000) 60000 True 1000 firstBetting))))
        aliceId ''BTC'' = Some 0"
  by (simp add: engine_defs)

text \<open>
  Claim C9, as amended. Outside the betting phase \<open>placeBet\<close> always fails and returns the
  state as it was; the error is the betting-closed one when the request is well formed,
  and the invalid-parameters or unsupported-currency one otherwise, since the request
  is validated first. Outside the running phase \<open>cashOut\<close> always fails and returns the
  state as it was; the error is the no-active-round one when no round is running, which
  is checked before the phase, and the cashout-not-running one only when
  \<open>isGameRunning\<close> is still set.
\<close>

theorem phase_gate:
  "(roundPhase s \<noteq> Betting
    \<longrightarrow> placeBet u a c ca p m n s =
          (Inl (if u = [] \<or> a \<le> 0 \<or> c = [] then InvalidBetParameters
                else if c \<notin> set supportedCurrencies then UnsupportedCurrency c
                else BettingClosed), s))
   \<and> (roundPhase s \<noteq> Running
    \<longrightarrow> cashOut u m n s =
          (Inl (if u = [] then InvalidUserId
                else if \<not> isGameRunning s then NoActiveRound
                else CashoutNotRunning), s))"
  by (simp add: placeBet_def cashOut_def)

theorem phase_gate_witness:
  "roundPhase runningRound \<noteq> Betting
   \<and> placeBet ''bob'' 30 ''ETH'' (1 / 100) 3000 False 13050 runningRound
       = (Inl BettingClosed, runningRound)
   \<and> roundPhase (pauseGame runningRound) \<noteq> Running
   \<and> cashOut ''alice'' False 13050 (pauseGame runningRound)
       = (Inl NoActiveRound, pauseGame runningRound)"
proof -
  have p: "roundPhase runningRound \<noteq> Betting" "roundPhase (pauseGame runningRound) \<noteq> Running"
    "\<not> isGameRunning (pauseGame runningRound)"
    by (simp_all add: runningRound_def engine_defs)
  from phase_gate [where s = runningRound and u = "''bob''" and a = 30 and c = "''ETH''"
      and ca = "1 / 100" and p = 3000 and m = False and n = 13050] p(1)
  have "placeBet ''bob'' 30 ''ETH'' (1 / 100) 3000 False 13050 runningRound
       = (Inl BettingClosed, runningRound)"
    by (simp add: supportedCurrencies_def)
  moreover
  from phase_gate [where s = "pauseGame runningRound" and u = "''alice''" and m = False
      and n = 13050] p(2,3)
  have "cashOut ''alice'' False 13050 (pauseGame runningRound)
       = (Inl NoActiveRound, pauseGame runningRound)"
    by simp
  ultimately show ?thesis using p by blast
qed

text \<open>
  Claim C9 as stated fails: in the betting phase, which is not the running phase,
  \<open>cashOut\<close> fails with the no-active-round error and not with the phase error; and in
  the waiting phase a \<open>placeBet\<close> with amount 0 fails with the invalid-parameters error.
\<close>

theorem phase_error_counterexample:
  "roundPhase (startBettingPhase demoService) \<noteq> Running
   \<and> fst (cashOut ''alice'' False 500 (startBettingPhase demoService)) = Inl NoActiveRound
   \<and> fst (cashOut ''alice'' False 500 (startBettingPhase demoService)) \<noteq> Inl CashoutNotRunning
   \<and> roundPhase demoService \<noteq> Betting
   \<and> fst (placeBet ''alice'' 0 ''BTC'' 0 60000 False 500 demoService) = Inl InvalidBetParameters
   \<and> fst (placeBet ''alice'' 0 ''BTC'' 0 60000 False 500 demoService) \<noteq> Inl BettingClosed"
  by (simp add: engine_defs)

end
